theory Spec2Isabelle
  imports Complex_Main "HOL-Library.Signed_Division" "HOL-Library.Multiset"
begin

section \<open>Numbers\<close>

text \<open>
  The renderer computes in C++ \<^verbatim>\<open>double\<close> and \<^verbatim>\<open>int\<close>.

  \<^item> \<^verbatim>\<open>double\<close> is idealised as \<open>real\<close>: every finite double is a real number, and each
    operation is the exact one (no rounding, no infinities, no NaN). An equation below
    between two different expressions is an equation of exact arithmetic.
  \<^item> Where the rounding decides a property (the order in which colours are added), the
    shading computation is embedded a second time, with every operation followed by
    the rounding \<open>fl\<close> to the nearest double; these definitions end in \<open>_fl\<close>.
  \<^item> The quotient of a double by zero is an infinity or a NaN. The step of the ray
    generator divides by \<^verbatim>\<open>width / 2\<close>, which is 0 for a width the entry point accepts;
    there the model computes with \<open>ddiv\<close>, whose result \<open>None\<close> stands for a double that is
    not finite. \<^verbatim>\<open>myCos\<close> divides by the norms of its arguments, which the specification
    requires to be non-zero; it keeps the division of \<open>real\<close>.
  \<^item> \<^verbatim>\<open>int\<close> is \<open>int\<close>. The only integer operations of the source are \<^verbatim>\<open>width / 2\<close>,
    \<^verbatim>\<open>height / 2\<close>, \<^verbatim>\<open>i - width / 2\<close>, \<^verbatim>\<open>i++\<close> and \<^verbatim>\<open>i < width\<close> with
    \<open>0 \<le> i \<le> width\<close>, none of which can leave the 32-bit range; C++ division truncates
    towards zero, which is \<open>sdiv\<close>.
\<close>

type_synonym double = real

text \<open>Division of doubles: \<open>None\<close> is the infinity or NaN that a zero divisor gives.\<close>

definition ddiv :: "double \<Rightarrow> double \<Rightarrow> double option" where
  "ddiv a b = (if b = 0 then None else Some (a / b))"

text \<open>
  Rounding to the nearest double (binary64: 53 significant bits, ties to the even
  significand). The exponent range is taken as unbounded: no overflow, no subnormal
  numbers. \<open>rne\<close> rounds to the nearest integer, ties to even.
\<close>

definition rne :: "real \<Rightarrow> int" where
  "rne y =
     (let f = \<lfloor>y\<rfloor>;
          r = y - of_int f
      in if r < 1 / 2 then f
         else if 1 / 2 < r then f + 1
         else if even f then f else f + 1)"

definition fl :: "real \<Rightarrow> real" where
  "fl x =
     (if x = 0 then 0
      else (let e = \<lfloor>log 2 \<bar>x\<bar>\<rfloor> - 52
            in of_int (rne (x / 2 powr of_int e)) * 2 powr of_int e))"

text \<open>\<^verbatim>\<open>std::numeric_limits<double>::max()\<close>, the largest finite double.\<close>

definition DBL_MAX :: double where
  "DBL_MAX = (2 ^ 53 - 1) * 2 ^ 971"

text \<open>The reflectance constants of class \<^verbatim>\<open>Render\<close> (the source's \<^verbatim>\<open>m\<close> is \<open>m_exp\<close>).\<close>

definition ka :: double where "ka = 0.1"
definition kd :: double where "kd = 0.6"
definition ks :: double where "ks = 0.3"
definition m_exp :: double where "m_exp = 8.0"

section \<open>Collaborators\<close>

subsection \<open>Eigen::Vector4d\<close>

text \<open>
  The operations of the Eigen library that \<^verbatim>\<open>Render.hpp\<close> calls. \<^verbatim>\<open>cross3\<close> is the cross
  product of the first three coefficients with a zero fourth coefficient;
  \<^verbatim>\<open>normalized\<close> divides by the norm when the squared norm is positive and returns the
  vector as it is otherwise.
\<close>

datatype Vector4d = Vector4d (vx: double) (vy: double) (vz: double) (vw: double)

definition vadd :: "Vector4d \<Rightarrow> Vector4d \<Rightarrow> Vector4d" where
  "vadd a b = Vector4d (vx a + vx b) (vy a + vy b) (vz a + vz b) (vw a + vw b)"

definition vsub :: "Vector4d \<Rightarrow> Vector4d \<Rightarrow> Vector4d" where
  "vsub a b = Vector4d (vx a - vx b) (vy a - vy b) (vz a - vz b) (vw a - vw b)"

definition smul :: "double \<Rightarrow> Vector4d \<Rightarrow> Vector4d" where
  "smul k a = Vector4d (k * vx a) (k * vy a) (k * vz a) (k * vw a)"

definition dot :: "Vector4d \<Rightarrow> Vector4d \<Rightarrow> double" where
  "dot a b = vx a * vx b + vy a * vy b + vz a * vz b + vw a * vw b"

definition squaredNorm :: "Vector4d \<Rightarrow> double" where
  "squaredNorm a = dot a a"

definition norm4 :: "Vector4d \<Rightarrow> double" where
  "norm4 a = sqrt (squaredNorm a)"

definition normalized :: "Vector4d \<Rightarrow> Vector4d" where
  "normalized a =
     (let z = squaredNorm a
      in if z > 0
         then Vector4d (vx a / sqrt z) (vy a / sqrt z) (vz a / sqrt z) (vw a / sqrt z)
         else a)"

definition cross3 :: "Vector4d \<Rightarrow> Vector4d \<Rightarrow> Vector4d" where
  "cross3 a b = Vector4d (vy a * vz b - vz a * vy b)
                         (vz a * vx b - vx a * vz b)
                         (vx a * vy b - vy a * vx b)
                         0"

subsection \<open>Structs.hpp and Obj.hpp\<close>

text \<open>
  Modelled from the spec: \<^verbatim>\<open>Structs.hpp\<close> is absent. A colour is a triple of
  floating-point channel intensities with scalar multiplication and component-wise
  addition and multiplication; no range is enforced.
\<close>

datatype Color = Color (red: double) (green: double) (blue: double)

definition cscale :: "double \<Rightarrow> Color \<Rightarrow> Color" where
  "cscale k c = Color (k * red c) (k * green c) (k * blue c)"

definition cadd :: "Color \<Rightarrow> Color \<Rightarrow> Color" where
  "cadd a b = Color (red a + red b) (green a + green b) (blue a + blue b)"

definition cmul :: "Color \<Rightarrow> Color \<Rightarrow> Color" where
  "cmul a b = Color (red a * red b) (green a * green b) (blue a * blue b)"

text \<open>
  Modelled from the spec: \<^verbatim>\<open>Obj.hpp\<close> is absent. The fields are the ones
  \<^verbatim>\<open>Render.hpp\<close> reads.
\<close>

record Camera =
  pos :: Vector4d
  screenCenter :: Vector4d
  up :: Vector4d
  fov :: double

record Light =
  lpos :: Vector4d
  color :: Color

text \<open>
  The direction of a ray is \<open>None\<close> when its coefficients are not finite doubles (the ray
  of a pixel whose step is not finite).
\<close>

record Ray =
  origin :: Vector4d
  direction :: "Vector4d option"

text \<open>
  The member functions of \<^verbatim>\<open>Sphere\<close> and the conversion \<^verbatim>\<open>Pixel(Color)\<close> are parameters:
  every theorem holds for any implementation of them. They are functions of their
  arguments, as in the spec's consumed interface.
\<close>

record ('sphere, 'pixel) Collab =
  getColor :: "'sphere \<Rightarrow> Color"
  normalVector :: "'sphere \<Rightarrow> Vector4d \<Rightarrow> Vector4d"
  intersection :: "'sphere \<Rightarrow> Ray \<Rightarrow> double \<times> Vector4d option"
  Pixel :: "Color \<Rightarrow> 'pixel"

section \<open>Render::myCos and Render::calcColor\<close>

definition myCos :: "Vector4d \<Rightarrow> Vector4d \<Rightarrow> bool \<Rightarrow> double" where
  "myCos a b do_cut =
     (let cos_ab = dot a b / norm4 a / norm4 b
      in if do_cut \<and> cos_ab < 0.0 then 0.0 else cos_ab)"

text \<open>The body of the loop over the lights, with the source's local names.\<close>

definition lightDir :: "Vector4d \<Rightarrow> Light \<Rightarrow> Vector4d" where
  "lightDir sectionPoint light = normalized (vsub (lpos light) sectionPoint)"

definition reflectR :: "Vector4d \<Rightarrow> Vector4d \<Rightarrow> Vector4d" where
  "reflectR N L = vsub (smul (2 * myCos N L False) N) L"

definition lightStep ::
  "('sphere, 'pixel) Collab \<Rightarrow> Vector4d \<Rightarrow> Vector4d \<Rightarrow> 'sphere \<Rightarrow> Vector4d
     \<Rightarrow> Color \<Rightarrow> Light \<Rightarrow> Color" where
  "lightStep ops sectionPoint cameraPos nearestSphere N c light =
     (let L = lightDir sectionPoint light;
          R = reflectR N L;
          first = kd * myCos N L True;
          obs = normalized (vsub cameraPos sectionPoint);
          second = ks * (myCos obs R True) powr m_exp
      in cadd c (cmul (cscale (first + second) (color light)) (getColor ops nearestSphere)))"

definition calcColor ::
  "('sphere, 'pixel) Collab \<Rightarrow> Vector4d \<Rightarrow> Vector4d \<Rightarrow> 'sphere \<Rightarrow> Light list
     \<Rightarrow> Color" where
  "calcColor ops sectionPoint cameraPos nearestSphere lights =
     (let c = cscale ka (getColor ops nearestSphere);
          N = normalVector ops nearestSphere sectionPoint
      in foldl (lightStep ops sectionPoint cameraPos nearestSphere N) c lights)"

subsection \<open>The same computation in rounded arithmetic\<close>

text \<open>
  \<^verbatim>\<open>myCos\<close> and \<^verbatim>\<open>calcColor\<close> once more, each operation of the source followed by the
  rounding to a double: the literals \<^verbatim>\<open>0.1\<close>, \<^verbatim>\<open>0.6\<close> and \<^verbatim>\<open>0.3\<close> are the doubles
  nearest to them, the dot product is summed from the first coefficient to the last, and
  the operators of \<^verbatim>\<open>Color\<close> round each channel.
\<close>

definition vsub_fl :: "Vector4d \<Rightarrow> Vector4d \<Rightarrow> Vector4d" where
  "vsub_fl a b =
     Vector4d (fl (vx a - vx b)) (fl (vy a - vy b)) (fl (vz a - vz b)) (fl (vw a - vw b))"

definition smul_fl :: "double \<Rightarrow> Vector4d \<Rightarrow> Vector4d" where
  "smul_fl k a = Vector4d (fl (k * vx a)) (fl (k * vy a)) (fl (k * vz a)) (fl (k * vw a))"

definition dot_fl :: "Vector4d \<Rightarrow> Vector4d \<Rightarrow> double" where
  "dot_fl a b =
     fl (fl (fl (fl (vx a * vx b) + fl (vy a * vy b)) + fl (vz a * vz b)) + fl (vw a * vw b))"

definition norm4_fl :: "Vector4d \<Rightarrow> double" where
  "norm4_fl a = fl (sqrt (dot_fl a a))"

definition normalized_fl :: "Vector4d \<Rightarrow> Vector4d" where
  "normalized_fl a =
     (let z = dot_fl a a
      in if z > 0
         then Vector4d (fl (vx a / fl (sqrt z))) (fl (vy a / fl (sqrt z)))
                       (fl (vz a / fl (sqrt z))) (fl (vw a / fl (sqrt z)))
         else a)"

definition cscale_fl :: "double \<Rightarrow> Color \<Rightarrow> Color" where
  "cscale_fl k c = Color (fl (k * red c)) (fl (k * green c)) (fl (k * blue c))"

definition cadd_fl :: "Color \<Rightarrow> Color \<Rightarrow> Color" where
  "cadd_fl a b = Color (fl (red a + red b)) (fl (green a + green b)) (fl (blue a + blue b))"

definition cmul_fl :: "Color \<Rightarrow> Color \<Rightarrow> Color" where
  "cmul_fl a b = Color (fl (red a * red b)) (fl (green a * green b)) (fl (blue a * blue b))"

definition myCos_fl :: "Vector4d \<Rightarrow> Vector4d \<Rightarrow> bool \<Rightarrow> double" where
  "myCos_fl a b do_cut =
     (let cos_ab = fl (fl (dot_fl a b / norm4_fl a) / norm4_fl b)
      in if do_cut \<and> cos_ab < 0.0 then 0.0 else cos_ab)"

definition lightStep_fl ::
  "('sphere, 'pixel) Collab \<Rightarrow> Vector4d \<Rightarrow> Vector4d \<Rightarrow> 'sphere \<Rightarrow> Vector4d
     \<Rightarrow> Color \<Rightarrow> Light \<Rightarrow> Color" where
  "lightStep_fl ops sectionPoint cameraPos nearestSphere N c light =
     (let L = normalized_fl (vsub_fl (lpos light) sectionPoint);
          R = vsub_fl (smul_fl (fl (2 * myCos_fl N L False)) N) L;
          first = fl (fl kd * myCos_fl N L True);
          obs = normalized_fl (vsub_fl cameraPos sectionPoint);
          second = fl (fl ks * fl (myCos_fl obs R True powr m_exp))
      in cadd_fl c (cmul_fl (cscale_fl (fl (first + second)) (color light))
                            (getColor ops nearestSphere)))"

definition calcColor_fl ::
  "('sphere, 'pixel) Collab \<Rightarrow> Vector4d \<Rightarrow> Vector4d \<Rightarrow> 'sphere \<Rightarrow> Light list
     \<Rightarrow> Color" where
  "calcColor_fl ops sectionPoint cameraPos nearestSphere lightList =
     (let c = cscale_fl (fl ka) (getColor ops nearestSphere);
          N = normalVector ops nearestSphere sectionPoint
      in foldl (lightStep_fl ops sectionPoint cameraPos nearestSphere N) c lightList)"

section \<open>The image sink and the state a render call works on\<close>

text \<open>
  Modelled from the spec: \<^verbatim>\<open>Bmp.hpp\<close> is absent. An image is a \<open>width \<times> height\<close> grid
  mutated one pixel at a time; a pixel that \<^verbatim>\<open>setPixel\<close> never wrote holds the sink's
  default value, which is \<open>None\<close> here. \<^verbatim>\<open>saveToBmp\<close> stores the image under the path.
\<close>

record 'pixel Image =
  imgWidth :: int
  imgHeight :: int
  pixels :: "int \<times> int \<Rightarrow> 'pixel option"

definition newImage :: "int \<Rightarrow> int \<Rightarrow> 'pixel Image" where
  "newImage width height = \<lparr>imgWidth = width, imgHeight = height, pixels = (\<lambda>_. None)\<rparr>"

definition setPixel :: "int \<Rightarrow> int \<Rightarrow> 'pixel \<Rightarrow> 'pixel Image \<Rightarrow> 'pixel Image" where
  "setPixel i j p img = img\<lparr>pixels := (pixels img)((i, j) \<mapsto> p)\<rparr>"

text \<open>
  The members of \<^verbatim>\<open>Render\<close> are references to the caller's camera, spheres and lights;
  with the files and the standard error stream they are the state of a call.
\<close>

record ('sphere, 'pixel) System =
  camera :: Camera
  objs :: "'sphere list"
  lights :: "Light list"
  files :: "string \<Rightarrow> 'pixel Image option"
  cerr :: string

definition saveToBmp ::
  "string \<Rightarrow> 'pixel Image \<Rightarrow> ('sphere, 'pixel) System \<Rightarrow> ('sphere, 'pixel) System" where
  "saveToBmp path img sys = sys\<lparr>files := (files sys)(path \<mapsto> img)\<rparr>"

section \<open>Ray generation\<close>

definition centralRay :: "Camera \<Rightarrow> Vector4d" where
  "centralRay cam = vsub (screenCenter cam) (pos cam)"

definition screenRight :: "Camera \<Rightarrow> Vector4d" where
  "screenRight cam = normalized (cross3 (centralRay cam) (up cam))"

definition screenUp :: "Camera \<Rightarrow> Vector4d" where
  "screenUp cam = normalized (cross3 (screenRight cam) (centralRay cam))"

definition fovRad :: "Camera \<Rightarrow> double" where
  "fovRad cam = fov cam * (pi / 180)"

text \<open>The divisor \<^verbatim>\<open>(width / 2)\<close> of the step, an \<^verbatim>\<open>int\<close> division.\<close>

definition stepDivisor :: "int \<Rightarrow> int" where
  "stepDivisor width = width sdiv 2"

definition step :: "Camera \<Rightarrow> int \<Rightarrow> double option" where
  "step cam width =
     ddiv (tan (fovRad cam / 2) * norm4 (centralRay cam)) (of_int (stepDivisor width))"

text \<open>The pixel offsets \<^verbatim>\<open>x = i - width / 2\<close> and \<^verbatim>\<open>y = j - height / 2\<close>.\<close>

definition pixelOffset :: "int \<Rightarrow> int \<Rightarrow> int" where
  "pixelOffset idx extent = idx - extent sdiv 2"

text \<open>
  The product of a double that is not finite with any double is not finite (\<open>0 * inf\<close> is
  a NaN), and so is its sum with any double. So when the step is not finite, no
  coefficient of \<^verbatim>\<open>pointOnScreen\<close> is, nor of its difference with the camera position, nor
  of the normalised difference (\<^verbatim>\<open>normalized\<close> returns it as it is or divides it by an
  infinity): \<open>None\<close> is handed on.
\<close>

definition pointOnScreen :: "Camera \<Rightarrow> int \<Rightarrow> int \<Rightarrow> int \<Rightarrow> Vector4d option" where
  "pointOnScreen cam width x y =
     map_option
       (\<lambda>st. vadd (vadd (screenCenter cam) (smul (of_int x * st) (screenRight cam)))
                  (smul (of_int y * st) (screenUp cam)))
       (step cam width)"

definition pixelRay :: "Camera \<Rightarrow> int \<Rightarrow> int \<Rightarrow> int \<Rightarrow> int \<Rightarrow> Ray" where
  "pixelRay cam width height i j =
     (let x = pixelOffset i width;
          y = pixelOffset j height
      in \<lparr>origin = pos cam,
          direction = map_option (\<lambda>q. normalized (vsub q (pos cam)))
                        (pointOnScreen cam width x y)\<rparr>)"

section \<open>Nearest hit\<close>

text \<open>
  The three locals of the scan; \<^verbatim>\<open>nearestSphere\<close> points into \<^verbatim>\<open>objs\<close>, so it is an
  index, and \<^verbatim>\<open>sectionPoint\<close> is uninitialised (\<open>None\<close>) until the first hit is kept.
\<close>

record Scan =
  z_buffor :: double
  nearestSphere :: "nat option"
  sectionPoint :: "Vector4d option"

definition scanStart :: Scan where
  "scanStart = \<lparr>z_buffor = DBL_MAX, nearestSphere = None, sectionPoint = None\<rparr>"

definition scanStep ::
  "('sphere, 'pixel) Collab \<Rightarrow> Ray \<Rightarrow> 'sphere list \<Rightarrow> nat \<Rightarrow> Scan \<Rightarrow> Scan" where
  "scanStep ops ray spheres i st =
     (let res = intersection ops (spheres ! i) ray
      in if snd res \<noteq> None
         then if fst res < z_buffor st
              then st\<lparr>z_buffor := fst res, nearestSphere := Some i, sectionPoint := snd res\<rparr>
              else st
         else st)"

function scanObjs ::
  "('sphere, 'pixel) Collab \<Rightarrow> Ray \<Rightarrow> 'sphere list \<Rightarrow> nat \<Rightarrow> Scan \<Rightarrow> Scan" where
  "scanObjs ops ray spheres i st =
     (if i < length spheres
      then scanObjs ops ray spheres (i + 1) (scanStep ops ray spheres i st)
      else st)"
  by pat_completeness auto
termination
  by (relation "measure (\<lambda>(ops, ray, spheres, i, st). length spheres - i)") auto

definition findNearest :: "('sphere, 'pixel) Collab \<Rightarrow> Ray \<Rightarrow> 'sphere list \<Rightarrow> Scan" where
  "findNearest ops ray spheres = scanObjs ops ray spheres 0 scanStart"

section \<open>Render::renderImageCPU\<close>

text \<open>
  The body of the two nested loops. The last branch is never taken: the scan sets
  \<^verbatim>\<open>sectionPoint\<close> whenever it sets \<^verbatim>\<open>nearestSphere\<close>.
\<close>

definition pixelCPU ::
  "('sphere, 'pixel) Collab \<Rightarrow> ('sphere, 'pixel) System \<Rightarrow> int \<Rightarrow> int \<Rightarrow> int \<Rightarrow> int
     \<Rightarrow> 'pixel Image \<Rightarrow> 'pixel Image" where
  "pixelCPU ops sys width height i j img =
     (let ray = pixelRay (camera sys) width height i j;
          st = findNearest ops ray (objs sys)
      in case nearestSphere st of
           None \<Rightarrow> img
         | Some k \<Rightarrow>
             (case sectionPoint st of
                Some p \<Rightarrow>
                  (let c = calcColor ops p (pos (camera sys)) (objs sys ! k) (lights sys)
                   in setPixel i j (Pixel ops c) img)
              | None \<Rightarrow> img))"

function loopJ ::
  "('sphere, 'pixel) Collab \<Rightarrow> ('sphere, 'pixel) System \<Rightarrow> int \<Rightarrow> int \<Rightarrow> int \<Rightarrow> int
     \<Rightarrow> 'pixel Image \<Rightarrow> 'pixel Image" where
  "loopJ ops sys width height i j img =
     (if j < height
      then loopJ ops sys width height i (j + 1) (pixelCPU ops sys width height i j img)
      else img)"
  by pat_completeness auto
termination
  by (relation "measure (\<lambda>(ops, sys, width, height, i, j, img). nat (height - j))") auto

function loopI ::
  "('sphere, 'pixel) Collab \<Rightarrow> ('sphere, 'pixel) System \<Rightarrow> int \<Rightarrow> int \<Rightarrow> int
     \<Rightarrow> 'pixel Image \<Rightarrow> 'pixel Image" where
  "loopI ops sys width height i img =
     (if i < width
      then loopI ops sys width height (i + 1) (loopJ ops sys width height i 0 img)
      else img)"
  by pat_completeness auto
termination
  by (relation "measure (\<lambda>(ops, sys, width, height, i, img). nat (width - i))") auto

definition renderImageCPU ::
  "('sphere, 'pixel) Collab \<Rightarrow> int \<Rightarrow> int \<Rightarrow> string \<Rightarrow> ('sphere, 'pixel) System
     \<Rightarrow> ('sphere, 'pixel) System" where
  "renderImageCPU ops width height path sys =
     (let img = loopI ops sys width height 0 (newImage width height)
      in saveToBmp path img sys)"

section \<open>Render::renderImageTBB\<close>

text \<open>
  \<^verbatim>\<open>tbb::parallel_for\<close> splits \<open>[0, width)\<close> into blocks and, for each \<open>i\<close> of a
  block, \<open>[0, height)\<close> into blocks, and runs the loop body once for every pixel; which
  body runs when is the scheduler's choice. A body reads the camera, the spheres and the
  lights, owns its locals, and writes one pixel of its own, so a run is some order
  \<open>sched\<close> of the bodies: the extra argument of the model. \<open>validSchedule\<close> says that
  every pixel of the image is in it once.
\<close>

definition pixelTBB ::
  "('sphere, 'pixel) Collab \<Rightarrow> ('sphere, 'pixel) System \<Rightarrow> int \<Rightarrow> int \<Rightarrow> int \<Rightarrow> int
     \<Rightarrow> 'pixel Image \<Rightarrow> 'pixel Image" where
  "pixelTBB ops sys width height i j img =
     (let ray = pixelRay (camera sys) width height i j;
          st = findNearest ops ray (objs sys)
      in case nearestSphere st of
           None \<Rightarrow> img
         | Some k \<Rightarrow>
             (case sectionPoint st of
                Some p \<Rightarrow>
                  (let c = calcColor ops p (pos (camera sys)) (objs sys ! k) (lights sys)
                   in setPixel i j (Pixel ops c) img)
              | None \<Rightarrow> img))"

definition validSchedule :: "int \<Rightarrow> int \<Rightarrow> (int \<times> int) list \<Rightarrow> bool" where
  "validSchedule width height sched =
     (distinct sched \<and> set sched = {0..<width} \<times> {0..<height})"

definition renderImageTBB ::
  "('sphere, 'pixel) Collab \<Rightarrow> (int \<times> int) list \<Rightarrow> int \<Rightarrow> int \<Rightarrow> string
     \<Rightarrow> ('sphere, 'pixel) System \<Rightarrow> ('sphere, 'pixel) System" where
  "renderImageTBB ops sched width height path sys =
     (let img = foldl (\<lambda>img (i, j). pixelTBB ops sys width height i j img)
                      (newImage width height) sched
      in saveToBmp path img sys)"

section \<open>Render::renderImage\<close>

text \<open>
  \<^verbatim>\<open>enum struct RenderMode\<close> has the underlying type \<^verbatim>\<open>int\<close>, and every \<^verbatim>\<open>int\<close> is a
  value of it: the \<^verbatim>\<open>default\<close> branch of the switch is reachable.
\<close>

type_synonym RenderMode = int

definition CPU :: RenderMode where "CPU = 0"
definition TBB :: RenderMode where "TBB = 1"

definition renderImage ::
  "('sphere, 'pixel) Collab \<Rightarrow> (int \<times> int) list \<Rightarrow> RenderMode \<Rightarrow> int \<Rightarrow> int \<Rightarrow> string
     \<Rightarrow> ('sphere, 'pixel) System \<Rightarrow> ('sphere, 'pixel) System" where
  "renderImage ops sched mode width height path sys =
     (if mode = CPU then renderImageCPU ops width height path sys
      else if mode = TBB then renderImageTBB ops sched width height path sys
      else sys\<lparr>cerr := cerr sys @ ''Not implemented yet'' @ [CHR 0x0A]\<rparr>)"

section \<open>The operations as the specification words them\<close>


definition cosine :: "Vector4d \<Rightarrow> Vector4d \<Rightarrow> double" where
  "cosine a b = dot a b / (norm4 a * norm4 b)"



text \<open>
  The ray generator of the specification, with \<open>width/2\<close> and \<open>height/2\<close> the integer
  quotients of HOL and the division of doubles for the step.
\<close>

definition generateRay :: "Camera \<Rightarrow> int \<Rightarrow> int \<Rightarrow> int \<Rightarrow> int \<Rightarrow> Ray" where
  "generateRay cam width height pixelX pixelY =
     (let cRay = vsub (screenCenter cam) (pos cam);
          sRight = normalized (cross3 cRay (up cam));
          sUp = normalized (cross3 sRight cRay);
          fovR = fov cam * (pi / 180);
          stp = ddiv (tan (fovR / 2) * norm4 cRay) (of_int (width div 2));
          x = pixelX - width div 2;
          y = pixelY - height div 2;
          onScreen =
            map_option
              (\<lambda>st. vadd (vadd (screenCenter cam) (smul (of_int x * st) sRight))
                         (smul (of_int y * st) sUp))
              stp
      in \<lparr>origin = pos cam,
          direction = map_option (\<lambda>q. normalized (vsub q (pos cam))) onScreen\<rparr>)"

section \<open>What a pixel body writes\<close>

text \<open>
  The value a pixel body writes to its pixel, if it writes, and the image after the
  bodies of a set of pixels have run: two abbreviations for the proofs about the loops.
\<close>

definition pixelValue ::
  "('sphere, 'pixel) Collab \<Rightarrow> ('sphere, 'pixel) System \<Rightarrow> int \<Rightarrow> int \<Rightarrow> int \<times> int
     \<Rightarrow> 'pixel option" where
  "pixelValue ops sys width height q =
     (let st = findNearest ops (pixelRay (camera sys) width height (fst q) (snd q)) (objs sys)
      in case nearestSphere st of
           None \<Rightarrow> None
         | Some k \<Rightarrow>
             (case sectionPoint st of
                Some p \<Rightarrow>
                  Some (Pixel ops (calcColor ops p (pos (camera sys)) (objs sys ! k) (lights sys)))
              | None \<Rightarrow> None))"

definition painted ::
  "('sphere, 'pixel) Collab \<Rightarrow> ('sphere, 'pixel) System \<Rightarrow> int \<Rightarrow> int \<Rightarrow> (int \<times> int) set
     \<Rightarrow> 'pixel Image \<Rightarrow> 'pixel Image" where
  "painted ops sys width height S img =
     img\<lparr>pixels := (\<lambda>q. if q \<in> S
                          then (case pixelValue ops sys width height q of
                                  None \<Rightarrow> pixels img q
                                | Some px \<Rightarrow> Some px)
                          else pixels img q)\<rparr>"

section \<open>A small scene\<close>

text \<open>
  Concrete inputs. A sphere of \<open>tableOps\<close> is the answer its intersection test gives:
  the distance and, on a hit, the point.
\<close>

definition exCamera :: Camera where
  "exCamera = \<lparr>pos = Vector4d 0 0 0 1, screenCenter = Vector4d 0 0 1 1,
               up = Vector4d 0 1 0 0, fov = 90\<rparr>"

definition exRay :: Ray where
  "exRay = \<lparr>origin = Vector4d 0 0 0 1, direction = Some (Vector4d 0 0 1 0)\<rparr>"

definition tableOps :: "(double \<times> Vector4d option, Color) Collab" where
  "tableOps = \<lparr>getColor = (\<lambda>s. Color 1 1 1), normalVector = (\<lambda>s p. p),
               intersection = (\<lambda>s ray. s), Pixel = (\<lambda>c. c)\<rparr>"

definition exSystem ::
  "(double \<times> Vector4d option) list \<Rightarrow> (double \<times> Vector4d option, Color) System" where
  "exSystem spheres = \<lparr>camera = exCamera, objs = spheres, lights = [],
                        files = (\<lambda>_. None), cerr = []\<rparr>"

text \<open>
  The unit sphere about the origin, white: its normal at a point of its surface is the
  vector from the centre to the point. Its intersection test is not used.
\<close>

definition unitSphereOps :: "(unit, Color) Collab" where
  "unitSphereOps = \<lparr>getColor = (\<lambda>s. Color 1 1 1),
                    normalVector = (\<lambda>s p. vsub p (Vector4d 0 0 0 1)),
                    intersection = (\<lambda>s ray. (0, None)), Pixel = (\<lambda>c. c)\<rparr>"

text \<open>
  A point of the unit sphere, a viewer beside it, and two lights above it that differ in
  their intensity only.
\<close>

definition polePoint :: Vector4d where "polePoint = Vector4d 0 0 1 1"

definition sideViewer :: Vector4d where "sideViewer = Vector4d 1 0 1 1"

definition lampOne :: Light where
  "lampOne = \<lparr>lpos = Vector4d 0 0 2 1, color = Color 1 1 1\<rparr>"

definition lampEight :: Light where
  "lampEight = \<lparr>lpos = Vector4d 0 0 2 1, color = Color 8 8 8\<rparr>"

definition farHitA :: "double \<times> Vector4d option" where
  "farHitA = (DBL_MAX, Some (Vector4d 0 0 1 1))"

definition farHitB :: "double \<times> Vector4d option" where
  "farHitB = (DBL_MAX, Some (Vector4d 0 0 2 1))"

declare scanObjs.simps [simp del] loopJ.simps [simp del] loopI.simps [simp del]

section \<open>Shading\<close>


lemma myCos_clamped: "myCos a b True = max 0 (cosine a b)"
  unfolding myCos_def cosine_def by (auto simp: Let_def max_def field_simps)

lemma myCos_unclamped: "myCos a b False = cosine a b"
  unfolding myCos_def cosine_def by (auto simp: Let_def)










lemma norm4_unit_nonzero: "norm4 N = 1 \<Longrightarrow> smul k N = smul 0 N \<Longrightarrow> k = 0"
  unfolding norm4_def squaredNorm_def dot_def smul_def
  by (cases N) auto

text \<open>
  C3. The reflection vector of the shading computation is built from the unclamped
  cosine \<open>myCos N L False = dot N L / (|N| |L|)\<close>, while the diffuse term uses the
  clamped one. For unit vectors \<open>N\<close> and \<open>L\<close> the reflection vector is
  \<open>2 * dot N L * N - L\<close> and the diffuse term is \<open>kd * max 0 (dot N L)\<close>; when the light
  is behind the surface (\<open>dot N L < 0\<close>) the diffuse term is 0 and the reflection vector
  is not the one the clamped cosine would give.
\<close>

theorem reflection_uses_unclamped_cosine:
  "lightStep ops p v s N c light =
     cadd c (cmul (cscale (kd * myCos N (lightDir p light) True +
                           ks * myCos (normalized (vsub v p))
                                  (reflectR N (lightDir p light)) True powr m_exp)
                     (color light)) (getColor ops s)) \<and>
   reflectR N L = vsub (smul (2 * myCos N L False) N) L \<and>
   myCos N L False = dot N L / (norm4 N * norm4 L) \<and>
   myCos N L True = max 0 (myCos N L False) \<and>
   (norm4 N = 1 \<and> norm4 L = 1 \<longrightarrow>
      reflectR N L = vsub (smul (2 * dot N L) N) L \<and>
      kd * myCos N L True = kd * max 0 (dot N L)) \<and>
   (norm4 N = 1 \<and> norm4 L = 1 \<and> dot N L < 0 \<longrightarrow>
      kd * myCos N L True = 0 \<and>
      reflectR N L \<noteq> vsub (smul (2 * myCos N L True) N) L)"
proof -
  have l: "lightStep ops p v s N c light =
     cadd c (cmul (cscale (kd * myCos N (lightDir p light) True +
                           ks * myCos (normalized (vsub v p))
                                  (reflectR N (lightDir p light)) True powr m_exp)
                     (color light)) (getColor ops s))"
    by (simp add: lightStep_def Let_def)
  have r: "reflectR N L = vsub (smul (2 * myCos N L False) N) L"
    by (simp add: reflectR_def)
  have a: "myCos N L False = dot N L / (norm4 N * norm4 L)"
    by (simp add: myCos_unclamped cosine_def)
  have b: "myCos N L True = max 0 (myCos N L False)"
    by (simp add: myCos_unclamped myCos_clamped)
  have c: "reflectR N L = vsub (smul (2 * dot N L) N) L \<and>
           kd * myCos N L True = kd * max 0 (dot N L)"
    if "norm4 N = 1" "norm4 L = 1"
    using that by (simp add: reflectR_def myCos_unclamped myCos_clamped cosine_def)
  have d: "kd * myCos N L True = 0 \<and> reflectR N L \<noteq> vsub (smul (2 * myCos N L True) N) L"
    if u: "norm4 N = 1" "norm4 L = 1" and neg: "dot N L < 0"
  proof
    have z: "myCos N L True = 0"
      using u neg by (simp add: myCos_clamped cosine_def)
    then show "kd * myCos N L True = 0" by simp
    show "reflectR N L \<noteq> vsub (smul (2 * myCos N L True) N) L"
    proof
      assume e: "reflectR N L = vsub (smul (2 * myCos N L True) N) L"
      have "reflectR N L = vsub (smul (2 * dot N L) N) L"
        using u by (simp add: reflectR_def myCos_unclamped cosine_def)
      with e z have "vsub (smul (2 * dot N L) N) L = vsub (smul 0 N) L" by simp
      then have "smul (2 * dot N L) N = smul 0 N"
        by (simp add: vsub_def smul_def)
      with u(1) have "2 * dot N L = 0" by (rule norm4_unit_nonzero)
      with neg show False by simp
    qed
  qed
  from l r a b c d show ?thesis by blast
qed

text \<open>
  The unit length of the normal is needed: for a normal of length 2 the reflection vector
  of the code is not \<open>2 * dot N L * N - L\<close>.
\<close>

lemma reflectR_of_longer_normal:
  "reflectR (Vector4d 0 0 2 0) (Vector4d 0 0 1 0) = Vector4d 0 0 3 0 \<and>
   vsub (smul (2 * dot (Vector4d 0 0 2 0) (Vector4d 0 0 1 0)) (Vector4d 0 0 2 0))
        (Vector4d 0 0 1 0) = Vector4d 0 0 7 0"
  by (simp add: reflectR_def myCos_def norm4_def squaredNorm_def dot_def vsub_def smul_def)

theorem reflection_uses_unclamped_cosine_witness:
  "norm4 (Vector4d 0 0 1 0) = 1 \<and> norm4 (Vector4d 0 0 (- 1) 0) = 1 \<and>
   dot (Vector4d 0 0 1 0) (Vector4d 0 0 (- 1) 0) < 0 \<and>
   reflectR (Vector4d 0 0 1 0) (Vector4d 0 0 (- 1) 0) =
     vsub (smul (2 * dot (Vector4d 0 0 1 0) (Vector4d 0 0 (- 1) 0)) (Vector4d 0 0 1 0))
          (Vector4d 0 0 (- 1) 0) \<and>
   kd * myCos (Vector4d 0 0 1 0) (Vector4d 0 0 (- 1) 0) True = 0 \<and>
   reflectR (Vector4d 0 0 1 0) (Vector4d 0 0 (- 1) 0) \<noteq>
     vsub (smul (2 * myCos (Vector4d 0 0 1 0) (Vector4d 0 0 (- 1) 0) True) (Vector4d 0 0 1 0))
          (Vector4d 0 0 (- 1) 0)"
proof -
  have h: "norm4 (Vector4d 0 0 1 0) = 1 \<and> norm4 (Vector4d 0 0 (- 1) 0) = 1 \<and>
           dot (Vector4d 0 0 1 0) (Vector4d 0 0 (- 1) 0) < 0"
    by (simp add: norm4_def squaredNorm_def dot_def)
  note t = reflection_uses_unclamped_cosine
         [of tableOps "Vector4d 0 0 0 1" "Vector4d 0 0 5 1" farHitA "Vector4d 0 0 1 0"
             "Color 0 0 0" "\<lparr>lpos = Vector4d 0 0 (- 1) 1, color = Color 1 1 1\<rparr>"
             "Vector4d 0 0 (- 1) 0"]
  from t h show ?thesis by (elim conjE impE) (intro conjI; assumption)+
qed

section \<open>The order of the lights\<close>

lemma lightStep_commute:
  "lightStep ops p v s N (lightStep ops p v s N c a) b =
   lightStep ops p v s N (lightStep ops p v s N c b) a"
  by (simp add: lightStep_def Let_def cadd_def)

text \<open>
  C8, as the code has it. In exact arithmetic the result of \<open>calcColor\<close> is the same for
  every permutation of the light list: each light adds its contribution to the colour,
  and the addition of reals is associative and commutative.
\<close>

theorem calcColor_permutation_exact:
  assumes "mset ls' = mset ls"
  shows "calcColor ops p v s ls' = calcColor ops p v s ls"
proof -
  let ?f = "\<lambda>l c. lightStep ops p v s (normalVector ops s p) c l"
  have "fold ?f ls' = fold ?f ls"
    using assms by (intro fold_multiset_equiv) (auto simp: fun_eq_iff lightStep_commute)
  then show ?thesis
    by (simp add: calcColor_def Let_def foldl_conv_fold)
qed

theorem calcColor_permutation_exact_witness:
  "mset [lampEight, lampOne] = mset [lampOne, lampEight] \<and>
   calcColor unitSphereOps polePoint sideViewer () [lampEight, lampOne] =
     calcColor unitSphereOps polePoint sideViewer () [lampOne, lampEight]"
proof -
  have h: "mset [lampEight, lampOne] = mset [lampOne, lampEight]"
    by (simp add: add.commute)
  show ?thesis
    by (rule conjI [OF h calcColor_permutation_exact [OF h]])
qed

text \<open>
  In doubles it is not. \<open>fl\<close> at the numbers the next example meets:
\<close>

lemma fl_zero: "fl 0 = 0"
  by (simp add: fl_def)

lemma fl_bracket:
  assumes "2 powr of_int k \<le> \<bar>x\<bar>" and "\<bar>x\<bar> < 2 powr of_int (k + 1)"
  shows "fl x = of_int (rne (x / 2 powr of_int (k - 52))) * 2 powr of_int (k - 52)"
proof -
  have pos: "0 < \<bar>x\<bar>"
    using assms(1) by (rule less_le_trans[rotated]) simp
  then have nz: "x \<noteq> 0" by auto
  have "\<lfloor>log 2 \<bar>x\<bar>\<rfloor> = k"
    using assms pos by (subst floor_log_eq_powr_iff) (simp_all add: algebra_simps)
  with nz show ?thesis by (simp add: fl_def Let_def)
qed

lemma fl_up:
  assumes "2 ^ n \<le> \<bar>x\<bar>" and "\<bar>x\<bar> < 2 * 2 ^ n"
  shows "fl x = of_int (rne (x * 2 ^ 52 / 2 ^ n)) * 2 ^ n / 2 ^ 52"
proof -
  have a: "2 powr of_int (int n) = (2::real) ^ n"
    by (simp add: powr_realpow)
  have b: "2 powr of_int (int n + 1) = (2::real) * 2 ^ n"
    by (simp add: powr_add powr_realpow)
  have "2 powr of_int (int n - 52) = 2 powr of_int (int n) / (2::real) powr 52"
    by (simp add: powr_diff)
  then have c: "2 powr of_int (int n - 52) = (2::real) ^ n / 2 ^ 52"
    unfolding a by simp
  from fl_bracket [of "int n" x] assms show ?thesis
    unfolding a b c by simp
qed

lemma fl_down:
  assumes "1 / 2 ^ n \<le> \<bar>x\<bar>" and "\<bar>x\<bar> < 2 / 2 ^ n"
  shows "fl x = of_int (rne (x * (2 ^ 52 * 2 ^ n))) / (2 ^ 52 * 2 ^ n)"
proof -
  have a: "2 powr of_int (- int n) = 1 / (2::real) ^ n"
    by (simp add: powr_minus powr_realpow divide_inverse)
  have b: "2 powr of_int (- int n + 1) = 2 / (2::real) ^ n"
    by (simp add: powr_diff powr_realpow divide_inverse)
  have "2 powr of_int (- int n - 52) = 2 powr of_int (- int n) / (2::real) powr 52"
    by (simp add: powr_diff)
  then have c: "2 powr of_int (- int n - 52) = 1 / ((2::real) ^ 52 * 2 ^ n)"
    unfolding a by simp
  from fl_bracket [of "- int n" x] assms show ?thesis
    unfolding a b c by simp
qed

lemma rne_of_int: "rne (of_int z) = z"
  by (simp add: rne_def)

lemma fl_one: "fl 1 = 1"
  using fl_up [of 0 1] by (simp add: rne_def)

lemma fl_two: "fl 2 = 2"
  using fl_up [of 1 2] by (simp add: rne_def)

lemma fl_kd: "fl kd = 5404319552844595 / 9007199254740992"
  using fl_down [of 1 kd] by (simp add: kd_def rne_def)

lemma fl_ka: "fl ka = 3602879701896397 / 36028797018963968"
  using fl_down [of 4 ka] by (simp add: ka_def rne_def)


lemma fl_D06: "fl (5404319552844595 / 9007199254740992) = 5404319552844595 / 9007199254740992"
  using fl_down [of 1 "5404319552844595 / 9007199254740992"] by (simp add: rne_def)

lemma fl_D01: "fl (3602879701896397 / 36028797018963968) = 3602879701896397 / 36028797018963968"
  using fl_down [of 4 "3602879701896397 / 36028797018963968"] by (simp add: rne_def)

lemma fl_T8: "fl (5404319552844595 / 1125899906842624) = 5404319552844595 / 1125899906842624"
  using fl_up [of 2 "5404319552844595 / 1125899906842624"] by (simp add: rne_def)

lemma fl_sum_1: "fl (25220157913274777 / 36028797018963968) = 3152519739159347 / 4503599627370496"
  using fl_down [of 1 "25220157913274777 / 36028797018963968"] by (simp add: rne_def)

lemma fl_sum_2: "fl (24769797950537727 / 4503599627370496) = 11 / 2"
  using fl_up [of 2 "24769797950537727 / 4503599627370496"] by (simp add: rne_def)

lemma fl_sum_3: "fl (176541105392923437 / 36028797018963968) = 5516909543528857 / 1125899906842624"
  using fl_up [of 2 "176541105392923437 / 36028797018963968"] by (simp add: rne_def)

lemma fl_sum_4: "fl (49539595901075451 / 9007199254740992) = 6192449487634431 / 1125899906842624"
  using fl_up [of 2 "49539595901075451 / 9007199254740992"] by (simp add: rne_def)

lemma lightStep_fl_at_pole:
  "lightStep_fl unitSphereOps polePoint sideViewer () (Vector4d 0 0 1 0) c
     \<lparr>lpos = Vector4d 0 0 2 1, color = lc\<rparr> =
   cadd_fl c (cmul_fl (cscale_fl (5404319552844595 / 9007199254740992) lc) (Color 1 1 1))"
  by (simp add: lightStep_fl_def Let_def normalized_fl_def vsub_fl_def smul_fl_def dot_fl_def
      norm4_fl_def myCos_fl_def polePoint_def sideViewer_def unitSphereOps_def m_exp_def
      fl_zero fl_one fl_two fl_kd fl_D06)


lemma calcColor_fl_one_eight:
  "calcColor_fl unitSphereOps polePoint sideViewer () [lampOne, lampEight] =
     Color (11 / 2) (11 / 2) (11 / 2)"
proof -
  have N: "normalVector unitSphereOps () polePoint = Vector4d 0 0 1 0"
    by (simp add: unitSphereOps_def polePoint_def vsub_def)
  have c0: "cscale_fl (fl ka) (getColor unitSphereOps ()) =
      Color (3602879701896397 / 36028797018963968) (3602879701896397 / 36028797018963968)
            (3602879701896397 / 36028797018963968)"
    by (simp add: cscale_fl_def unitSphereOps_def fl_ka fl_D01)
  show ?thesis
    unfolding calcColor_fl_def Let_def N c0 lampOne_def lampEight_def
    by (simp add: lightStep_fl_at_pole cadd_fl_def cmul_fl_def cscale_fl_def
        fl_D06 fl_T8 fl_sum_1 fl_sum_2)
qed

lemma calcColor_fl_eight_one:
  "calcColor_fl unitSphereOps polePoint sideViewer () [lampEight, lampOne] =
     Color (6192449487634431 / 1125899906842624) (6192449487634431 / 1125899906842624)
           (6192449487634431 / 1125899906842624)"
proof -
  have N: "normalVector unitSphereOps () polePoint = Vector4d 0 0 1 0"
    by (simp add: unitSphereOps_def polePoint_def vsub_def)
  have c0: "cscale_fl (fl ka) (getColor unitSphereOps ()) =
      Color (3602879701896397 / 36028797018963968) (3602879701896397 / 36028797018963968)
            (3602879701896397 / 36028797018963968)"
    by (simp add: cscale_fl_def unitSphereOps_def fl_ka fl_D01)
  show ?thesis
    unfolding calcColor_fl_def Let_def N c0 lampOne_def lampEight_def
    by (simp add: lightStep_fl_at_pole cadd_fl_def cmul_fl_def cscale_fl_def
        fl_D06 fl_T8 fl_sum_3 fl_sum_4)
qed

text \<open>
  The white unit sphere lit at its pole by two lights at the same place, of intensity 1
  and 8, seen from the side (no specular term): every vector operation is exact, the
  contributions are \<open>fl 0.6\<close> and \<open>8 * fl 0.6\<close>, and adding them to the ambient \<open>fl 0.1\<close>
  in the two orders gives 5.5 and the double just below it.
\<close>

theorem calcColor_fl_depends_on_light_order:
  "mset [lampEight, lampOne] = mset [lampOne, lampEight] \<and>
   calcColor_fl unitSphereOps polePoint sideViewer () [lampOne, lampEight] =
     Color (11 / 2) (11 / 2) (11 / 2) \<and>
   calcColor_fl unitSphereOps polePoint sideViewer () [lampEight, lampOne] =
     Color (6192449487634431 / 1125899906842624) (6192449487634431 / 1125899906842624)
           (6192449487634431 / 1125899906842624) \<and>
   calcColor_fl unitSphereOps polePoint sideViewer () [lampEight, lampOne] \<noteq>
     calcColor_fl unitSphereOps polePoint sideViewer () [lampOne, lampEight]"
  by (simp add: calcColor_fl_one_eight calcColor_fl_eight_one add.commute)

section \<open>The step and its divisor\<close>

lemma sdiv_2_nonneg: "0 \<le> (w::int) \<Longrightarrow> w sdiv 2 = w div 2"
  unfolding signed_divide_int_def by (auto simp: sgn_if)

text \<open>
  C10. The step is a quotient whose divisor is the \<^verbatim>\<open>int\<close> division \<^verbatim>\<open>width / 2\<close>. The
  divisor is not zero for any width of at least 2, and the step is then the finite
  quotient; for width 1 the divisor is 0, so the step divides by zero and is not a
  finite double.
\<close>

theorem step_divides_by_half_width:
  "(2 \<le> width \<longrightarrow> stepDivisor width \<noteq> 0) \<and>
   stepDivisor 1 = 0 \<and>
   step cam width =
     ddiv (tan (fovRad cam / 2) * norm4 (centralRay cam)) (of_int (stepDivisor width)) \<and>
   (2 \<le> width \<longrightarrow>
      step cam width =
        Some (tan (fovRad cam / 2) * norm4 (centralRay cam) / of_int (stepDivisor width))) \<and>
   step cam 1 = None"
proof -
  have n: "stepDivisor width \<noteq> 0" if "2 \<le> width"
    using that unfolding stepDivisor_def signed_divide_int_def by (auto simp: sgn_if)
  have z: "stepDivisor 1 = 0"
    unfolding stepDivisor_def signed_divide_int_def by simp
  from n z show ?thesis by (simp add: step_def ddiv_def)
qed

theorem step_divides_by_half_width_witness:
  "(2::int) \<le> 2 \<and> stepDivisor 2 \<noteq> 0 \<and> stepDivisor 1 = 0 \<and>
   step exCamera 2 =
     Some (tan (fovRad exCamera / 2) * norm4 (centralRay exCamera) / of_int (stepDivisor 2)) \<and>
   step exCamera 1 = None"
proof -
  have h: "(2::int) \<le> 2" by simp
  from step_divides_by_half_width [of 2 exCamera] h show ?thesis by blast
qed

section \<open>The entry point\<close>

text \<open>
  C7. Called with a mode that is neither \<^verbatim>\<open>CPU\<close> nor \<^verbatim>\<open>TBB\<close>, \<open>renderImage\<close> writes the
  message \<^verbatim>\<open>Not implemented yet\<close> and a newline to the standard error stream and does
  nothing else: no image is rendered and no file is written, under any path.
\<close>

theorem unknown_mode_reports_and_writes_nothing:
  assumes "mode \<noteq> CPU" and "mode \<noteq> TBB"
  shows "renderImage ops sched mode width height path sys =
           sys\<lparr>cerr := cerr sys @ ''Not implemented yet'' @ [CHR 0x0A]\<rparr> \<and>
         files (renderImage ops sched mode width height path sys) = files sys \<and>
         cerr (renderImage ops sched mode width height path sys) \<noteq> cerr sys"
  using assms by (simp add: renderImage_def)

theorem unknown_mode_reports_and_writes_nothing_witness:
  "(2::int) \<noteq> CPU \<and> 2 \<noteq> TBB \<and>
   files (renderImage tableOps [] 2 4 4 ''out.bmp'' (exSystem [])) = files (exSystem []) \<and>
   files (exSystem []) ''out.bmp'' = None \<and>
   cerr (renderImage tableOps [] 2 4 4 ''out.bmp'' (exSystem [])) =
     ''Not implemented yet'' @ [CHR 0x0A]"
proof -
  have h: "(2::int) \<noteq> CPU" "(2::int) \<noteq> TBB" by (simp_all add: CPU_def TBB_def)
  from unknown_mode_reports_and_writes_nothing [OF h, of tableOps "[]" 4 4 "''out.bmp''" "exSystem []"] h
  show ?thesis by (simp add: exSystem_def)
qed

text \<open>
  C9. A call of \<open>renderImage\<close>, in any mode and under any schedule of the parallel loop,
  leaves the camera, the sphere list and the light list as they were.
\<close>

theorem scene_is_unchanged:
  "camera (renderImage ops sched mode width height path sys) = camera sys \<and>
   objs (renderImage ops sched mode width height path sys) = objs sys \<and>
   lights (renderImage ops sched mode width height path sys) = lights sys"
  by (simp add: renderImage_def renderImageCPU_def renderImageTBB_def saveToBmp_def Let_def)

section \<open>The scan over the spheres\<close>

lemma scanObjs_target:
  assumes k: "k < length spheres"
    and hit: "intersection ops (spheres ! k) ray = (d, Some p)"
    and others: "\<forall>j<length spheres. j \<noteq> k \<longrightarrow>
        snd (intersection ops (spheres ! j) ray) \<noteq> None \<longrightarrow>
        (if j < k then d < fst (intersection ops (spheres ! j) ray)
         else d \<le> fst (intersection ops (spheres ! j) ray))"
    and inv: "(i \<le> k \<and> d < z_buffor st) \<or>
        (k < i \<and> st = \<lparr>z_buffor = d, nearestSphere = Some k, sectionPoint = Some p\<rparr>)"
  shows "scanObjs ops ray spheres i st =
           \<lparr>z_buffor = d, nearestSphere = Some k, sectionPoint = Some p\<rparr>"
  using inv
proof (induction "length spheres - i" arbitrary: i st)
  case 0
  then have "\<not> i < length spheres" by simp
  with 0 k show ?case by (subst scanObjs.simps) auto
next
  case (Suc n)
  then have lt: "i < length spheres" by simp
  let ?st' = "scanStep ops ray spheres i st"
  have n: "n = length spheres - (i + 1)" using Suc(2) by simp
  have "(i + 1 \<le> k \<and> d < z_buffor ?st') \<or>
        (k < i + 1 \<and> ?st' = \<lparr>z_buffor = d, nearestSphere = Some k, sectionPoint = Some p\<rparr>)"
  proof (cases "i < k")
    case True
    with Suc(3) have z: "d < z_buffor st" by auto
    from True lt others have
      "snd (intersection ops (spheres ! i) ray) \<noteq> None \<longrightarrow>
       d < fst (intersection ops (spheres ! i) ray)"
      by auto
    with z have "d < z_buffor ?st'" by (auto simp: scanStep_def Let_def)
    with True show ?thesis by simp
  next
    case False
    show ?thesis
    proof (cases "i = k")
      case True
      with Suc(3) have "d < z_buffor st" by auto
      with True hit show ?thesis by (simp add: scanStep_def Let_def)
    next
      case ne: False
      with False have gt: "k < i" by simp
      with Suc(3) have st: "st = \<lparr>z_buffor = d, nearestSphere = Some k, sectionPoint = Some p\<rparr>"
        by auto
      from gt lt others have
        "snd (intersection ops (spheres ! i) ray) \<noteq> None \<longrightarrow>
         d \<le> fst (intersection ops (spheres ! i) ray)"
        by auto
      with st have "?st' = st" by (auto simp: scanStep_def Let_def)
      with st gt show ?thesis by simp
    qed
  qed
  from Suc(1)[OF n this] have "scanObjs ops ray spheres (i + 1) ?st' =
      \<lparr>z_buffor = d, nearestSphere = Some k, sectionPoint = Some p\<rparr>" .
  with lt show ?case by (subst scanObjs.simps) simp
qed

lemma scanObjs_ignores:
  assumes "\<forall>j<length spheres. snd (intersection ops (spheres ! j) ray) \<noteq> None \<longrightarrow>
        z_buffor st \<le> fst (intersection ops (spheres ! j) ray)"
  shows "scanObjs ops ray spheres i st = st"
proof (induction "length spheres - i" arbitrary: i)
  case 0
  then show ?case by (subst scanObjs.simps) simp
next
  case (Suc n)
  then have lt: "i < length spheres" by simp
  have n: "n = length spheres - (i + 1)" using Suc(2) by simp
  from lt assms have "scanStep ops ray spheres i st = st"
    by (auto simp: scanStep_def Let_def)
  with Suc(1)[OF n] lt show ?case by (subst scanObjs.simps) simp
qed

lemma DBL_MAX_large: "2 ^ 971 \<le> DBL_MAX"
  unfolding DBL_MAX_def by simp

text \<open>
  C4, as the code has it. The scan visits every sphere in list order and keeps a hit only
  when its distance is strictly below the smallest kept so far, starting from
  \<open>DBL_MAX\<close>. So a sphere hit at a distance \<open>d < DBL_MAX\<close> is the one selected, wherever
  it stands in the list, when every other hit before it is strictly farther and every
  other hit after it is at least as far: of two hits at distances \<open>d1 < d2\<close> the one at
  \<open>d1\<close>, of two hits at the same distance the first. A hit at \<open>DBL_MAX\<close> or beyond is
  never selected.
\<close>

theorem findNearest_first_strict_minimum:
  "(k < length spheres \<and> intersection ops (spheres ! k) ray = (d, Some p) \<and> d < DBL_MAX \<and>
      (\<forall>j<length spheres. j \<noteq> k \<longrightarrow>
         snd (intersection ops (spheres ! j) ray) \<noteq> None \<longrightarrow>
         (if j < k then d < fst (intersection ops (spheres ! j) ray)
          else d \<le> fst (intersection ops (spheres ! j) ray)))
    \<longrightarrow> findNearest ops ray spheres =
          \<lparr>z_buffor = d, nearestSphere = Some k, sectionPoint = Some p\<rparr>) \<and>
   ((\<forall>j<length spheres. snd (intersection ops (spheres ! j) ray) \<noteq> None \<longrightarrow>
         DBL_MAX \<le> fst (intersection ops (spheres ! j) ray))
    \<longrightarrow> findNearest ops ray spheres = scanStart)"
proof (intro conjI impI)
  assume a: "k < length spheres \<and> intersection ops (spheres ! k) ray = (d, Some p) \<and>
      d < DBL_MAX \<and>
      (\<forall>j<length spheres. j \<noteq> k \<longrightarrow>
         snd (intersection ops (spheres ! j) ray) \<noteq> None \<longrightarrow>
         (if j < k then d < fst (intersection ops (spheres ! j) ray)
          else d \<le> fst (intersection ops (spheres ! j) ray)))"
  then have "(0 \<le> k \<and> d < z_buffor scanStart) \<or>
      (k < 0 \<and> scanStart = \<lparr>z_buffor = d, nearestSphere = Some k, sectionPoint = Some p\<rparr>)"
    by (simp add: scanStart_def)
  with a show "findNearest ops ray spheres =
      \<lparr>z_buffor = d, nearestSphere = Some k, sectionPoint = Some p\<rparr>"
    unfolding findNearest_def by (intro scanObjs_target) blast+
next
  assume "\<forall>j<length spheres. snd (intersection ops (spheres ! j) ray) \<noteq> None \<longrightarrow>
         DBL_MAX \<le> fst (intersection ops (spheres ! j) ray)"
  then show "findNearest ops ray spheres = scanStart"
    unfolding findNearest_def by (intro scanObjs_ignores) (simp add: scanStart_def)
qed

theorem findNearest_first_strict_minimum_witness:
  "findNearest tableOps exRay
     [(5, Some (Vector4d 0 0 5 1)), (3, Some (Vector4d 0 0 3 1)), (3, Some (Vector4d 1 0 3 1))] =
   \<lparr>z_buffor = 3, nearestSphere = Some 1, sectionPoint = Some (Vector4d 0 0 3 1)\<rparr> \<and>
   findNearest tableOps exRay
     [(3, Some (Vector4d 0 0 3 1)), (5, Some (Vector4d 0 0 5 1))] =
   \<lparr>z_buffor = 3, nearestSphere = Some 0, sectionPoint = Some (Vector4d 0 0 3 1)\<rparr>"
proof -
  let ?late = "[(5, Some (Vector4d 0 0 5 1)), (3, Some (Vector4d 0 0 3 1)),
                (3::double, Some (Vector4d 1 0 3 1))]"
  let ?early = "[(3, Some (Vector4d 0 0 3 1)), (5::double, Some (Vector4d 0 0 5 1))]"
  have lt: "(3::double) < DBL_MAX"
    using DBL_MAX_large by (rule order.strict_trans2[rotated]) simp
  have h: "1 < length ?late \<and>
      intersection tableOps (?late ! 1) exRay = (3, Some (Vector4d 0 0 3 1)) \<and>
      3 < DBL_MAX \<and>
      (\<forall>j<length ?late. j \<noteq> 1 \<longrightarrow>
         snd (intersection tableOps (?late ! j) exRay) \<noteq> None \<longrightarrow>
         (if j < 1 then 3 < fst (intersection tableOps (?late ! j) exRay)
          else 3 \<le> fst (intersection tableOps (?late ! j) exRay)))"
    using lt by (auto simp: tableOps_def nth_Cons' less_Suc_eq numeral_3_eq_3)
  have g: "0 < length ?early \<and>
      intersection tableOps (?early ! 0) exRay = (3, Some (Vector4d 0 0 3 1)) \<and>
      3 < DBL_MAX \<and>
      (\<forall>j<length ?early. j \<noteq> 0 \<longrightarrow>
         snd (intersection tableOps (?early ! j) exRay) \<noteq> None \<longrightarrow>
         (if j < 0 then 3 < fst (intersection tableOps (?early ! j) exRay)
          else 3 \<le> fst (intersection tableOps (?early ! j) exRay)))"
    using lt by (auto simp: tableOps_def nth_Cons' less_Suc_eq)
  from findNearest_first_strict_minimum [of 1 ?late tableOps exRay 3 "Vector4d 0 0 3 1"] h
  have a: "findNearest tableOps exRay ?late =
      \<lparr>z_buffor = 3, nearestSphere = Some 1, sectionPoint = Some (Vector4d 0 0 3 1)\<rparr>"
    by blast
  from findNearest_first_strict_minimum [of 0 ?early tableOps exRay 3 "Vector4d 0 0 3 1"] g
  have b: "findNearest tableOps exRay ?early =
      \<lparr>z_buffor = 3, nearestSphere = Some 0, sectionPoint = Some (Vector4d 0 0 3 1)\<rparr>"
    by blast
  from a b show ?thesis by simp
qed

text \<open>
  Two spheres hit at the same distance \<open>DBL_MAX\<close>: the first one is not kept, no sphere
  is.
\<close>

theorem findNearest_tie_at_DBL_MAX:
  "snd (intersection tableOps farHitA exRay) \<noteq> None \<and>
   snd (intersection tableOps farHitB exRay) \<noteq> None \<and>
   fst (intersection tableOps farHitA exRay) = fst (intersection tableOps farHitB exRay) \<and>
   nearestSphere (findNearest tableOps exRay [farHitA, farHitB]) = None"
  by (simp add: tableOps_def farHitA_def farHitB_def findNearest_def scanObjs.simps
      scanStep_def scanStart_def Let_def)


section \<open>Rays\<close>

lemma sdiv_2_double: "(2 * n) sdiv 2 = (n::int)"
  unfolding signed_divide_int_def by (auto simp: sgn_if abs_if)

lemma vadd_smul_zero: "vadd a (smul 0 b) = a"
  by (cases a) (simp add: vadd_def smul_def)

lemma pixelRay_generateRay:
  assumes "0 \<le> width" and "0 \<le> height"
  shows "pixelRay cam width height i j = generateRay cam width height i j"
  using assms
  by (simp add: pixelRay_def generateRay_def pointOnScreen_def pixelOffset_def step_def
      stepDivisor_def fovRad_def screenUp_def screenRight_def centralRay_def Let_def
      sdiv_2_nonneg)

lemma pixelRay_centre:
  assumes "width sdiv 2 \<noteq> 0"
  shows "pixelRay cam width height (width sdiv 2) (height sdiv 2) =
           \<lparr>origin = pos cam, direction = Some (normalized (centralRay cam))\<rparr>"
  using assms
  by (simp add: pixelRay_def pixelOffset_def pointOnScreen_def step_def stepDivisor_def
      ddiv_def vadd_smul_zero centralRay_def)

text \<open>
  C5. The ray of pixel \<open>(i, j)\<close> starts at the camera position and points, normalised, to
  \<open>screenCenter + x * step * screenRight + y * step * screenUp\<close> with the integer offsets
  \<open>x = i - width / 2\<close> and \<open>y = j - height / 2\<close> and the one step
  \<open>tan (fovRad / 2) * |centralRay| / (width / 2)\<close> for both axes, the divisions by 2 being
  those of \<^verbatim>\<open>int\<close> and the division of the step that of doubles. For an image of
  non-negative size this is the ray of the specification. The pixel
  \<open>(width / 2, height / 2)\<close> has the offsets \<open>(0, 0)\<close>; for an even extent \<open>2 * n\<close> the
  offsets run from \<open>- n\<close> to \<open>n - 1\<close>. When \<open>width / 2\<close> is not 0 the direction is a vector
  of finite doubles and the ray of the pixel \<open>(width / 2, height / 2)\<close> follows the
  central ray; when it is 0 the direction is not finite.
\<close>

theorem pixelRay_through_screen_point:
  "origin (pixelRay cam width height i j) = pos cam \<and>
   direction (pixelRay cam width height i j) =
     map_option (\<lambda>q. normalized (vsub q (pos cam)))
       (pointOnScreen cam width (pixelOffset i width) (pixelOffset j height)) \<and>
   pointOnScreen cam width x y =
     map_option
       (\<lambda>st. vadd (vadd (screenCenter cam) (smul (of_int x * st) (screenRight cam)))
                  (smul (of_int y * st) (screenUp cam)))
       (step cam width) \<and>
   step cam width =
     ddiv (tan (fovRad cam / 2) * norm4 (centralRay cam)) (of_int (width sdiv 2)) \<and>
   pixelOffset i width = i - width sdiv 2 \<and>
   pixelOffset j height = j - height sdiv 2 \<and>
   (0 \<le> width \<and> 0 \<le> height \<longrightarrow>
      pixelRay cam width height i j = generateRay cam width height i j) \<and>
   pixelOffset (width sdiv 2) width = 0 \<and>
   pixelOffset (height sdiv 2) height = 0 \<and>
   (0 < n \<longrightarrow> pixelOffset 0 (2 * n) = - n \<and> pixelOffset (2 * n - 1) (2 * n) = n - 1) \<and>
   (width sdiv 2 \<noteq> 0 \<longrightarrow>
      direction (pixelRay cam width height i j) =
        Some (normalized (vsub
          (vadd (vadd (screenCenter cam)
                   (smul (of_int (i - width sdiv 2) *
                          (tan (fovRad cam / 2) * norm4 (centralRay cam) / of_int (width sdiv 2)))
                      (screenRight cam)))
                (smul (of_int (j - height sdiv 2) *
                       (tan (fovRad cam / 2) * norm4 (centralRay cam) / of_int (width sdiv 2)))
                   (screenUp cam)))
          (pos cam))) \<and>
      pixelRay cam width height (width sdiv 2) (height sdiv 2) =
        \<lparr>origin = pos cam, direction = Some (normalized (centralRay cam))\<rparr>) \<and>
   (width sdiv 2 = 0 \<longrightarrow> direction (pixelRay cam width height i j) = None)"
proof -
  have e: "pixelOffset 0 (2 * n) = - n \<and> pixelOffset (2 * n - 1) (2 * n) = n - 1"
    by (simp add: pixelOffset_def sdiv_2_double)
  have g: "pixelRay cam width height i j = generateRay cam width height i j"
    if "0 \<le> width \<and> 0 \<le> height"
    using that by (simp add: pixelRay_generateRay)
  have c: "pixelRay cam width height (width sdiv 2) (height sdiv 2) =
        \<lparr>origin = pos cam, direction = Some (normalized (centralRay cam))\<rparr>"
    if "width sdiv 2 \<noteq> 0"
    using that by (rule pixelRay_centre)
  show ?thesis
    using c e g
    by (simp add: pixelRay_def Let_def pointOnScreen_def step_def stepDivisor_def
        pixelOffset_def ddiv_def)
qed

theorem pixelRay_through_screen_point_witness:
  "(0::int) \<le> 4 \<and> (0::int) \<le> 2 \<and> (4::int) sdiv 2 \<noteq> 0 \<and>
   pixelRay exCamera 4 2 1 1 = generateRay exCamera 4 2 1 1 \<and>
   pixelRay exCamera 4 2 (4 sdiv 2) (2 sdiv 2) =
     \<lparr>origin = pos exCamera, direction = Some (normalized (centralRay exCamera))\<rparr> \<and>
   (0::int) < 2 \<and> pixelOffset 0 (2 * 2) = - 2 \<and> pixelOffset (2 * 2 - 1) (2 * 2) = 2 - 1 \<and>
   (1::int) sdiv 2 = 0 \<and> direction (pixelRay exCamera 1 1 0 0) = None"
proof -
  have h: "(0::int) \<le> 4 \<and> (0::int) \<le> 2 \<and> (4::int) sdiv 2 \<noteq> 0 \<and> (0::int) < 2 \<and>
           (1::int) sdiv 2 = 0"
    by (simp add: signed_divide_int_def)
  note wide = pixelRay_through_screen_point [of exCamera 4 2 1 1 0 0 2]
  note narrow = pixelRay_through_screen_point [of exCamera 1 1 0 0 0 0 2]
  from wide narrow h show ?thesis by blast
qed

section \<open>The loops\<close>

lemma painted_empty: "painted ops sys width height {} img = img"
  by (simp add: painted_def)

lemma painted_painted:
  "painted ops sys width height S (painted ops sys width height T img) =
   painted ops sys width height (S \<union> T) img"
  by (auto simp: painted_def fun_eq_iff split: option.splits)

lemma pixelCPU_painted:
  "pixelCPU ops sys width height i j img = painted ops sys width height {(i, j)} img"
  by (auto simp: pixelCPU_def painted_def pixelValue_def setPixel_def Let_def fun_eq_iff
      split: option.splits)

lemma pixelTBB_pixelCPU:
  "pixelTBB ops sys width height i j img = pixelCPU ops sys width height i j img"
  by (simp add: pixelTBB_def pixelCPU_def)

lemma loopJ_painted:
  "loopJ ops sys width height i j img = painted ops sys width height ({i} \<times> {j..<height}) img"
proof (induction ops sys width height i j img rule: loopJ.induct)
  case (1 ops sys width height i j img)
  show ?case
  proof (cases "j < height")
    case True
    have s: "{i} \<times> {j + 1..<height} \<union> {(i, j)} = {i} \<times> {j..<height}"
      using True by auto
    have "loopJ ops sys width height i j img =
          loopJ ops sys width height i (j + 1) (pixelCPU ops sys width height i j img)"
      using True by (subst loopJ.simps) simp
    also have "\<dots> = painted ops sys width height ({i} \<times> {j + 1..<height})
                      (painted ops sys width height {(i, j)} img)"
      using 1 [OF True] by (simp only: pixelCPU_painted)
    also have "\<dots> = painted ops sys width height ({i} \<times> {j + 1..<height} \<union> {(i, j)}) img"
      by (rule painted_painted)
    finally show ?thesis by (simp only: s)
  next
    case False
    then show ?thesis by (subst loopJ.simps) (simp add: painted_empty)
  qed
qed

lemma loopI_painted:
  "loopI ops sys width height i img =
   painted ops sys width height ({i..<width} \<times> {0..<height}) img"
proof (induction ops sys width height i img rule: loopI.induct)
  case (1 ops sys width height i img)
  show ?case
  proof (cases "i < width")
    case True
    have s: "{i + 1..<width} \<times> {0..<height} \<union> {i} \<times> {0..<height} =
             {i..<width} \<times> {0..<height}"
      using True by auto
    have "loopI ops sys width height i img =
          loopI ops sys width height (i + 1) (loopJ ops sys width height i 0 img)"
      using True by (subst loopI.simps) simp
    also have "\<dots> = painted ops sys width height ({i + 1..<width} \<times> {0..<height})
                      (painted ops sys width height ({i} \<times> {0..<height}) img)"
      using 1 [OF True] by (simp only: loopJ_painted)
    also have "\<dots> = painted ops sys width height
                      ({i + 1..<width} \<times> {0..<height} \<union> {i} \<times> {0..<height}) img"
      by (rule painted_painted)
    finally show ?thesis by (simp only: s)
  next
    case False
    then show ?thesis by (subst loopI.simps) (simp add: painted_empty)
  qed
qed

lemma foldl_pixelTBB_painted:
  "foldl (\<lambda>img (i, j). pixelTBB ops sys width height i j img) img sched =
   painted ops sys width height (set sched) img"
proof (induction sched arbitrary: img)
  case Nil
  show ?case by (simp add: painted_empty)
next
  case (Cons q sched)
  obtain i j where q: "q = (i, j)" by (cases q)
  let ?f = "\<lambda>img (i, j). pixelTBB ops sys width height i j img"
  have "foldl ?f img (q # sched) = foldl ?f (painted ops sys width height {(i, j)} img) sched"
    by (simp add: q pixelTBB_pixelCPU pixelCPU_painted)
  also have "\<dots> = painted ops sys width height (set sched)
                      (painted ops sys width height {(i, j)} img)"
    by (rule Cons)
  also have "\<dots> = painted ops sys width height (set sched \<union> {(i, j)}) img"
    by (rule painted_painted)
  also have "set sched \<union> {(i, j)} = set (q # sched)"
    by (simp add: q)
  finally show ?case .
qed

text \<open>
  C1. For every image size, camera, sphere list and light list, the body of the parallel
  loop computes for every pixel what the body of the sequential loop computes, and under
  every schedule that runs the body of each pixel once the parallel renderer saves the
  image the sequential renderer saves.
\<close>

theorem renderImageTBB_is_renderImageCPU:
  assumes "validSchedule width height sched"
  shows "renderImageTBB ops sched width height path sys =
           renderImageCPU ops width height path sys \<and>
         pixelTBB ops sys width height i j img = pixelCPU ops sys width height i j img \<and>
         renderImage ops sched TBB width height path sys =
           renderImage ops sched CPU width height path sys"
proof -
  have r: "renderImageTBB ops sched width height path sys =
           renderImageCPU ops width height path sys"
    using assms
    by (simp add: renderImageTBB_def renderImageCPU_def validSchedule_def
        foldl_pixelTBB_painted loopI_painted)
  then have "renderImage ops sched TBB width height path sys =
             renderImage ops sched CPU width height path sys"
    by (simp add: renderImage_def CPU_def TBB_def)
  with r show ?thesis by (simp add: pixelTBB_pixelCPU)
qed

theorem renderImageTBB_is_renderImageCPU_witness:
  "validSchedule 2 1 [(1, 0), (0, 0)] \<and>
   renderImageTBB tableOps [(1, 0), (0, 0)] 2 1 ''out.bmp''
       (exSystem [(2, Some (Vector4d 0 0 2 1))]) =
     renderImageCPU tableOps 2 1 ''out.bmp'' (exSystem [(2, Some (Vector4d 0 0 2 1))])"
proof -
  have h: "validSchedule 2 1 [(1, 0), (0, 0)]"
    by (auto simp: validSchedule_def)
  from renderImageTBB_is_renderImageCPU [OF h] h show ?thesis by blast
qed

lemma findNearest_no_hit:
  assumes "\<forall>s\<in>set spheres. snd (intersection ops s ray) = None"
  shows "findNearest ops ray spheres = scanStart"
  unfolding findNearest_def using assms by (intro scanObjs_ignores) simp

lemma pixelValue_no_hit:
  assumes "\<forall>s\<in>set (objs sys). snd (intersection ops s (pixelRay (camera sys) width height i j)) = None"
  shows "pixelValue ops sys width height (i, j) = None"
  using findNearest_no_hit [OF assms] by (simp add: pixelValue_def scanStart_def)

lemma painted_no_hit:
  assumes "pixelValue ops sys width height q = None"
  shows "pixels (painted ops sys width height S img) q = pixels img q"
  using assms by (simp add: painted_def)

text \<open>
  C6. When the ray of pixel \<open>(i, j)\<close> hits no sphere of the list, the loop body of that
  pixel leaves the image as it is (it does not call \<^verbatim>\<open>setPixel\<close>), in both renderers, and
  in the saved image the pixel holds the default value.
\<close>

theorem miss_leaves_pixel_unset:
  assumes miss: "\<forall>s\<in>set (objs sys).
        snd (intersection ops s (pixelRay (camera sys) width height i j)) = None"
    and mode: "mode = CPU \<or> mode = TBB"
  shows "pixelCPU ops sys width height i j img = img \<and>
         pixelTBB ops sys width height i j img = img \<and>
         (\<exists>out. files (renderImage ops sched mode width height path sys) path = Some out \<and>
                pixels out (i, j) = None)"
proof -
  note v = pixelValue_no_hit [OF miss]
  have "(\<lambda>q. if q \<in> {(i, j)}
              then (case pixelValue ops sys width height q of
                      None \<Rightarrow> pixels img q
                    | Some px \<Rightarrow> Some px)
              else pixels img q) = pixels img"
    using v by (auto simp: fun_eq_iff)
  then have b: "pixelCPU ops sys width height i j img = img"
    unfolding pixelCPU_painted painted_def by simp
  have c: "pixels (painted ops sys width height S (newImage width height)) (i, j) = None" for S
    using painted_no_hit [OF v] by (simp add: newImage_def)
  have "\<exists>out. files (renderImage ops sched mode width height path sys) path = Some out \<and>
                pixels out (i, j) = None"
    using mode c
    by (auto simp: renderImage_def CPU_def TBB_def renderImageCPU_def renderImageTBB_def
        saveToBmp_def loopI_painted foldl_pixelTBB_painted)
  with b show ?thesis by (simp add: pixelTBB_pixelCPU)
qed

theorem miss_leaves_pixel_unset_witness:
  "(\<exists>out. files (renderImage tableOps [] CPU 2 2 ''out.bmp'' (exSystem [(1, None)])) ''out.bmp''
            = Some out \<and> pixels out (1, 1) = None)"
proof -
  have h: "\<forall>s\<in>set (objs (exSystem [(1, None)])).
        snd (intersection tableOps s (pixelRay (camera (exSystem [(1, None)])) 2 2 1 1)) = None"
    by (simp add: exSystem_def tableOps_def)
  from miss_leaves_pixel_unset [OF h, of CPU] show ?thesis by blast
qed

end
